theory Spec2Isabelle
  imports Main "HOL-Library.Word"
begin

unbundle bit_operations_syntax

section \<open>JavaScript values and the runtime operations used by the loader\<close>

type_synonym byte = "8 word"
type_synonym addr = nat

text \<open>
  The values a caller can hand to the loader's methods: \<open>undefined\<close>, \<open>null\<close>,
  booleans, integer numbers, strings and byte arrays (\<open>Uint8Array\<close>). A parameter that
  the caller leaves out is \<open>Undefined\<close>.
\<close>

datatype jsval = Undefined | Null | Bool bool | Num int | Str string | Bytes "byte list"

text \<open>
  A rejected promise carries the thrown value: a \<open>TypeError\<close> raised by the runtime
  inside the loader's own code, or whatever a collaborator's method threw.
\<close>

datatype 'e js_error = TypeError | Thrown 'e

text \<open>What a loader method resolves with: nothing, or a reference to an object.\<close>

datatype retval = RetUndefined | RetObj addr

definition digit_char :: "nat \<Rightarrow> char" where
  "digit_char d = ''0123456789abcdef'' ! (d mod 16)"

function radix_digits :: "nat \<Rightarrow> nat \<Rightarrow> string" where
  "radix_digits b n =
     (if b < 2 \<or> n < b then [digit_char n]
      else radix_digits b (n div b) @ [digit_char (n mod b)])"
  by pat_completeness auto
termination
  by (relation "measure snd") auto

text \<open>\<open>Number.prototype.toString(radix)\<close> on an integer.\<close>

definition number_to_string :: "nat \<Rightarrow> int \<Rightarrow> string" where
  "number_to_string b n =
     (if n < 0 then CHR ''-'' # radix_digits b (nat (- n)) else radix_digits b (nat n))"

fun join_comma :: "string list \<Rightarrow> string" where
  "join_comma [] = []"
| "join_comma [x] = x"
| "join_comma (x # y # zs) = x @ '','' @ join_comma (y # zs)"

text \<open>The string a template literal \<open>${v}\<close> inserts.\<close>

fun to_string :: "jsval \<Rightarrow> string" where
  "to_string Undefined = ''undefined''"
| "to_string Null = ''null''"
| "to_string (Bool b) = (if b then ''true'' else ''false'')"
| "to_string (Num n) = number_to_string 10 n"
| "to_string (Str s) = s"
| "to_string (Bytes bs) = join_comma (map (\<lambda>b. number_to_string 10 (uint b)) bs)"

text \<open>
  \<open>v.length\<close>: reading a property of \<open>undefined\<close> or \<open>null\<close> throws; strings and
  byte arrays have a length; booleans and numbers have no such property.
\<close>

fun get_length :: "jsval \<Rightarrow> 'e js_error + jsval" where
  "get_length Undefined = Inl TypeError"
| "get_length Null = Inl TypeError"
| "get_length (Str s) = Inr (Num (int (length s)))"
| "get_length (Bytes bs) = Inr (Num (int (length bs)))"
| "get_length (Bool b) = Inr Undefined"
| "get_length (Num n) = Inr Undefined"

text \<open>
  \<open>v.toString(16)\<close>: only numbers look at the radix; calling a method on
  \<open>undefined\<close> or \<open>null\<close> throws.
\<close>

fun toString16 :: "jsval \<Rightarrow> 'e js_error + string" where
  "toString16 Undefined = Inl TypeError"
| "toString16 Null = Inl TypeError"
| "toString16 (Num n) = Inr (number_to_string 16 n)"
| "toString16 v = Inr (to_string v)"

text \<open>A default parameter value applies when the argument is \<open>undefined\<close>.\<close>

definition default_param :: "jsval \<Rightarrow> jsval \<Rightarrow> jsval" where
  "default_param v d = (if v = Undefined then d else v)"

text \<open>Binding the \<open>i\<close>-th formal parameter of a call: missing arguments are \<open>undefined\<close>.\<close>

definition arg :: "jsval list \<Rightarrow> nat \<Rightarrow> jsval" where
  "arg args i = (if i < length args then args ! i else Undefined)"

section \<open>Objects, collaborators and program state\<close>

text \<open>
  The objects \<open>index.js\<close> creates with \<open>new\<close>, each recorded with the constructor
  argument it was given. The classes themselves (\<open>webserial.js\<close>,
  \<open>targets/esp32s3.js\<close>, \<open>reset.js\<close>) are imported, so a constructor is taken to do
  no more than bind its argument, and the methods the loader calls on these objects are
  parameters of the model (\<open>collab\<close> below).
\<close>

datatype 'p obj = Transport 'p | ESP32S3ROM addr | HardReset addr

text \<open>
  \<open>objects\<close> is the object table (an address is an index into it), \<open>console\<close> the
  lines written by \<open>console.log\<close>, \<open>world\<close> everything the imported classes act on
  (the serial link, the device, their own fields).
\<close>

record ('p, 'w) state =
  objects :: "'p obj list"
  console :: "string list"
  world :: 'w

text \<open>
  A method of an imported class: it receives its receiver (\<open>this\<close>) and the argument
  list, acts on the world, and its promise settles as rejected (\<open>Inl\<close>) or fulfilled
  (\<open>Inr\<close>). A call whose promise never settles leaves the awaiting loader method
  pending for ever; the model covers the runs in which every awaited call settles.
\<close>

type_synonym ('w, 'e) js_method = "addr \<Rightarrow> jsval list \<Rightarrow> 'w \<Rightarrow> ('e + jsval) \<times> 'w"

record ('w, 'e) collab =
  sync :: "('w, 'e) js_method"
  flash_begin :: "('w, 'e) js_method"
  flash_data :: "('w, 'e) js_method"
  perform :: "('w, 'e) js_method"

definition new :: "'p obj \<Rightarrow> ('p, 'w) state \<Rightarrow> addr \<times> ('p, 'w) state" where
  "new ob s = (length (objects s), s\<lparr>objects := objects s @ [ob]\<rparr>)"

definition console_log :: "string \<Rightarrow> ('p, 'w) state \<Rightarrow> ('p, 'w) state" where
  "console_log msg s = s\<lparr>console := console s @ [msg]\<rparr>"

text \<open>\<open>await obj.m(args)\<close>: run the method on the world and hand back how it settled.\<close>

definition await_call ::
  "('w, 'e) js_method \<Rightarrow> addr \<Rightarrow> jsval list \<Rightarrow> ('p, 'w) state \<Rightarrow> ('e + jsval) \<times> ('p, 'w) state" where
  "await_call m this args s = (case m this args (world s) of (r, w) \<Rightarrow> (r, s\<lparr>world := w\<rparr>))"

section \<open>The loader: class \<open>ESPLoader\<close> of \<open>index.js\<close>\<close>

record 'p ESPLoader =
  port :: 'p
  transport :: addr
  chip :: addr

type_synonym ('p, 'w, 'e) outcome = "('e js_error + retval) \<times> 'p ESPLoader \<times> ('p, 'w) state"

definition ESPLoader_new :: "'p \<Rightarrow> ('p, 'w) state \<Rightarrow> 'p ESPLoader \<times> ('p, 'w) state" where
  "ESPLoader_new p s =
     (case new (Transport p) s of (t, s1) \<Rightarrow>
        (case new (ESP32S3ROM t) s1 of (c, s2) \<Rightarrow>
           (\<lparr>port = p, transport = t, chip = c\<rparr>, s2)))"

text \<open>
  Every method takes the loader (\<open>this\<close>) and the state, and returns how its promise
  settled, the loader as the method leaves it, and the new state.
\<close>

definition initialize ::
  "('w, 'e) collab \<Rightarrow> 'p ESPLoader \<Rightarrow> ('p, 'w) state \<Rightarrow> ('p, 'w, 'e) outcome" where
  "initialize C l s =
     (let s1 = console_log ''[loader] Initializing ESP32-S3...'' s in
      case await_call (sync C) (chip l) [] s1 of
        (Inl e, s2) \<Rightarrow> (Inl (Thrown e), l, s2)
      | (Inr v, s2) \<Rightarrow> (Inr (RetObj (chip l)), l, s2))"

definition eraseFlash ::
  "('w, 'e) collab \<Rightarrow> 'p ESPLoader \<Rightarrow> ('p, 'w) state \<Rightarrow> ('p, 'w, 'e) outcome" where
  "eraseFlash C l s =
     (let s1 = console_log ''[loader] Erasing flash...'' s in
      case await_call (flash_begin C) (chip l) [] s1 of
        (Inl e, s2) \<Rightarrow> (Inl (Thrown e), l, s2)
      | (Inr v, s2) \<Rightarrow> (Inr RetUndefined, l, s2))"

definition flashData ::
  "('w, 'e) collab \<Rightarrow> jsval \<Rightarrow> jsval \<Rightarrow> jsval \<Rightarrow> 'p ESPLoader \<Rightarrow> ('p, 'w) state
     \<Rightarrow> ('p, 'w, 'e) outcome" where
  "flashData C data offset0 compress0 l s =
     (let offset = default_param offset0 (Num 0x10000);
          compress = default_param compress0 (Bool True) in
      case get_length data of
        Inl e \<Rightarrow> (Inl e, l, s)
      | Inr n \<Rightarrow>
         (case toString16 offset of
            Inl e \<Rightarrow> (Inl e, l, s)
          | Inr h \<Rightarrow>
             (let s1 = console_log
                         (''[loader] Flashing '' @ to_string n @ '' bytes at offset 0x'' @ h) s in
              case await_call (flash_data C) (chip l) [data, offset, compress] s1 of
                (Inl e, s2) \<Rightarrow> (Inl (Thrown e), l, s2)
              | (Inr v, s2) \<Rightarrow> (Inr RetUndefined, l, s2))))"

definition hardReset ::
  "('w, 'e) collab \<Rightarrow> 'p ESPLoader \<Rightarrow> ('p, 'w) state \<Rightarrow> ('p, 'w, 'e) outcome" where
  "hardReset C l s =
     (let s1 = console_log ''[loader] Hard reset...'' s in
      case new (HardReset (transport l)) s1 of (reset, s2) \<Rightarrow>
        (case await_call (perform C) reset [] s2 of
           (Inl e, s3) \<Rightarrow> (Inl (Thrown e), l, s3)
         | (Inr v, s3) \<Rightarrow> (Inr RetUndefined, l, s3)))"

text \<open>
  Calling a method of the class by name with an argument list, as a caller of the
  exported class does: formal parameters are bound by position, surplus arguments are
  dropped. \<open>None\<close> says that the class defines no method of that name.
\<close>

definition ESPLoader_invoke ::
  "('w, 'e) collab \<Rightarrow> string \<Rightarrow> jsval list \<Rightarrow> 'p ESPLoader \<Rightarrow> ('p, 'w) state
     \<Rightarrow> ('p, 'w, 'e) outcome option" where
  "ESPLoader_invoke C name args l s =
     (if name = ''initialize'' then Some (initialize C l s)
      else if name = ''eraseFlash'' then Some (eraseFlash C l s)
      else if name = ''flashData'' then Some (flashData C (arg args 0) (arg args 1) (arg args 2) l s)
      else if name = ''hardReset'' then Some (hardReset C l s)
      else None)"

text \<open>
  A collaborator that accepts every call and keeps, as its world, the list of calls it
  received (method name, receiver, arguments): it makes the calls a loader method issues
  observable.
\<close>

type_synonym call_log = "(string \<times> addr \<times> jsval list) list"

definition recording :: "(call_log, unit) collab" where
  "recording =
     \<lparr>sync = (\<lambda>this args w. (Inr Undefined, w @ [(''sync'', this, args)])),
      flash_begin = (\<lambda>this args w. (Inr Undefined, w @ [(''flash_begin'', this, args)])),
      flash_data = (\<lambda>this args w. (Inr Undefined, w @ [(''flash_data'', this, args)])),
      perform = (\<lambda>this args w. (Inr Undefined, w @ [(''perform'', this, args)]))\<rparr>"

definition empty_state :: "'w \<Rightarrow> ('p, 'w) state" where
  "empty_state w = \<lparr>objects = [], console = [], world = w\<rparr>"

text \<open>
  The loader that the constructor builds over port 0 in an empty state, and the state it
  leaves (with world \<open>w\<close>).
\<close>

definition fresh_loader :: "nat ESPLoader" where
  "fresh_loader = fst (ESPLoader_new 0 (empty_state ()))"

definition fresh_state :: "'w \<Rightarrow> (nat, 'w) state" where
  "fresh_state w = snd (ESPLoader_new 0 (empty_state w))"

section \<open>The framing layer\<close>

text \<open>
  Modelled from the spec: the framing layer lives in the imported \<open>webserial.js\<close>,
  which is not part of the sources. Section 4.1 of the specification fixes its contract;
  it leaves the delimiter byte, the escape byte and the two escape codes open, so they
  are a parameter.
\<close>

record framing =
  delimiter :: byte
  escape :: byte
  esc_delimiter :: byte
  esc_escape :: byte

text \<open>
  Modelled from the spec: the encoder of the missing framing layer. It replaces every
  payload byte equal to the delimiter or to the escape byte by a two-byte escape sequence
  and wraps the result in a start and an end delimiter.
\<close>

definition escape_byte :: "framing \<Rightarrow> byte \<Rightarrow> byte list" where
  "escape_byte F b =
     (if b = delimiter F then [escape F, esc_delimiter F]
      else if b = escape F then [escape F, esc_escape F]
      else [b])"

definition encode :: "framing \<Rightarrow> byte list \<Rightarrow> byte list" where
  "encode F payload = delimiter F # concat (map (escape_byte F) payload) @ [delimiter F]"

text \<open>
  Modelled from the spec: the decoder of the missing framing layer. It consumes bytes up
  to the terminating delimiter and reverses the escaping; the answer is \<open>Incomplete\<close>
  when the stream ends before a delimiter and \<open>Corrupt\<close> when an escape byte is
  followed by an invalid escape code.
\<close>

datatype decoded = Payload "byte list" | Incomplete | Corrupt

fun push_byte :: "byte \<Rightarrow> decoded \<Rightarrow> decoded" where
  "push_byte b (Payload p) = Payload (b # p)"
| "push_byte b Incomplete = Incomplete"
| "push_byte b Corrupt = Corrupt"

text \<open>The bytes after the start delimiter, up to the terminating delimiter.\<close>

fun decode_body :: "framing \<Rightarrow> byte list \<Rightarrow> decoded" where
  "decode_body F [] = Incomplete"
| "decode_body F [b] = (if b = delimiter F then Payload [] else Incomplete)"
| "decode_body F (b # c # cs) =
     (if b = delimiter F then Payload []
      else if b = escape F then
        (if c = esc_delimiter F then push_byte (delimiter F) (decode_body F cs)
         else if c = esc_escape F then push_byte (escape F) (decode_body F cs)
         else Corrupt)
      else push_byte b (decode_body F (c # cs)))"

text \<open>
  Modelled from the spec: the entry point of the missing decoder. A frame begins at the
  first delimiter of the stream; a stream that holds none has ended before a delimiter.
\<close>

fun decode :: "framing \<Rightarrow> byte list \<Rightarrow> decoded" where
  "decode F [] = Incomplete"
| "decode F (b # bs) = (if b = delimiter F then decode_body F bs else decode F bs)"

text \<open>The byte values of SLIP framing, one instance of the parameter.\<close>

definition slip :: framing where
  "slip = \<lparr>delimiter = 0xC0, escape = 0xDB, esc_delimiter = 0xDC, esc_escape = 0xDD\<rparr>"

section \<open>A chip with a session, and observers of the calls made\<close>

text \<open>
  Modelled from the spec: the states of the bootloader session (section 4.3), the error
  kinds (section 7) and the names of the flash commands (section 4.5). The class that
  keeps the session, \<open>targets/esp32s3.js\<close>, is not part of the sources; the types
  serve to say in which state a chip is when the loader calls it and what it answers.
\<close>

datatype session_state = Unsynced | Syncing | Synced | StubActive | Closed

datatype error =
    Timeout | ProtocolError | SequenceError | SyncFailed | CorruptStubImage
  | FlashWriteFailed nat nat | SessionClosed | TransportError

datatype command = FlashBegin | FlashData | FlashEnd

text \<open>\<open>sent\<close> is the list of commands written to the transport so far.\<close>

record session =
  phase :: session_state
  sent :: "command list"





section \<open>Properties of the loader\<close>

declare radix_digits.simps [simp del]

subsection \<open>Evaluation at a freshly constructed loader\<close>

lemmas fresh_defs = fresh_loader_def fresh_state_def ESPLoader_new_def new_def empty_state_def
lemmas run_defs = console_log_def await_call_def recording_def

lemma fresh_loader: "fresh_loader = \<lparr>port = 0, transport = 0, chip = 1\<rparr>"
  by (simp add: fresh_defs)

lemma fresh_state: "fresh_state w = \<lparr>objects = [Transport 0, ESP32S3ROM 0], console = [], world = w\<rparr>"
  by (simp add: fresh_defs)


lemma hex_1000: "number_to_string 16 0x1000 = ''1000''"
  by (simp add: number_to_string_def radix_digits.simps digit_char_def)

lemma dec_3: "number_to_string 10 3 = ''3''"
  by (simp add: number_to_string_def radix_digits.simps digit_char_def)

subsection \<open>What each method does to the loader, the object table and the world\<close>

lemma initialize_frame: "fst (snd (initialize C l s)) = l \<and> objects (snd (snd (initialize C l s))) = objects s"
  by (simp add: initialize_def await_call_def console_log_def split: prod.split sum.split)

lemma eraseFlash_frame: "fst (snd (eraseFlash C l s)) = l \<and> objects (snd (snd (eraseFlash C l s))) = objects s"
  by (simp add: eraseFlash_def await_call_def console_log_def split: prod.split sum.split)

lemma flashData_frame:
  "fst (snd (flashData C d off c l s)) = l \<and> objects (snd (snd (flashData C d off c l s))) = objects s"
  by (simp add: flashData_def Let_def await_call_def console_log_def split: prod.split sum.split)

lemma hardReset_frame:
  "fst (snd (hardReset C l s)) = l
   \<and> objects (snd (snd (hardReset C l s))) = objects s @ [HardReset (transport l)]"
  by (simp add: hardReset_def new_def await_call_def console_log_def split: prod.split sum.split)

lemma initialize_result: "fst (initialize C l s) = Inr r \<Longrightarrow> r = RetObj (chip l)"
  by (auto simp add: initialize_def await_call_def console_log_def split: prod.splits sum.splits)

lemma eraseFlash_world:
  "world (snd (snd (eraseFlash C l s))) = snd (flash_begin C (chip l) [] (world s))"
  by (simp add: eraseFlash_def await_call_def console_log_def split: prod.split sum.split)

lemma get_length_Inl: "get_length d = Inl e \<Longrightarrow> e = TypeError"
  by (cases d) simp_all

lemma toString16_Inl: "toString16 v = Inl e \<Longrightarrow> e = TypeError"
  by (cases v) simp_all

lemma flashData_world:
  "fst (flashData C d off c l s) \<noteq> Inl TypeError \<Longrightarrow>
   world (snd (snd (flashData C d off c l s)))
     = snd (flash_data C (chip l)
             [d, default_param off (Num 0x10000), default_param c (Bool True)] (world s))"
  by (auto simp add: flashData_def Let_def await_call_def console_log_def
      split: prod.splits sum.splits dest: get_length_Inl toString16_Inl)

lemma flashData_TypeError:
  "d = Undefined \<or> d = Null \<or> off = Null \<Longrightarrow> flashData C d off c l s = (Inl TypeError, l, s)"
  by (cases d) (auto simp add: flashData_def default_param_def)

lemma flashData_reaches_chip:
  assumes "d \<noteq> Undefined" "d \<noteq> Null" "off \<noteq> Null"
  shows "world (snd (snd (flashData C d off c l s)))
           = snd (flash_data C (chip l)
                   [d, default_param off (Num 0x10000), default_param c (Bool True)] (world s))"
    and "fst (flashData C d off c l s)
           = (case fst (flash_data C (chip l)
                   [d, default_param off (Num 0x10000), default_param c (Bool True)] (world s)) of
                Inl e \<Rightarrow> Inl (Thrown e) | Inr v \<Rightarrow> Inr RetUndefined)"
  using assms
  by (cases d; cases off;
      simp add: flashData_def default_param_def await_call_def console_log_def
        split: prod.split sum.split)+



lemma if_chain_None:
  "((if a then Some x else if b then Some y else if c then Some z else if d then Some w else None) = None)
     = (\<not> (a \<or> b \<or> c \<or> d))"
  by auto

lemma invoke_None:
  "(ESPLoader_invoke C name args l s = None)
      = (\<not> (name = ''initialize'' \<or> name = ''eraseFlash'' \<or> name = ''flashData'' \<or> name = ''hardReset''))"
  unfolding ESPLoader_invoke_def by (rule if_chain_None)

subsection \<open>The public surface\<close>

text \<open>
  C1, as the specification states it: the loader offers \<open>sync\<close>, \<open>load_stub\<close>,
  \<open>erase(offset, length)\<close>, \<open>write(offset, data, compress)\<close>,
  \<open>reset(mode)\<close> and \<open>close\<close>; in particular erase accepts an offset and a
  length and reset accepts a mode. The class does otherwise: an offset and a length handed
  to \<open>eraseFlash\<close> never reach the chip (it is called as \<open>flash_begin()\<close>, and two
  different requests run identically), a mode handed to \<open>hardReset\<close> changes nothing,
  and the class has no method for loading a stub or for closing.
\<close>

theorem surface_counterexample:
  "world (snd (snd (the (ESPLoader_invoke recording ''eraseFlash'' [Num 0x1000, Num 0x2000] fresh_loader (fresh_state [])))))
     = [(''flash_begin'', 1, [])]
   \<and> ESPLoader_invoke recording ''eraseFlash'' [Num 0x1000, Num 0x2000] fresh_loader (fresh_state [])
     = ESPLoader_invoke recording ''eraseFlash'' [Num 0, Num 16] fresh_loader (fresh_state [])
   \<and> world (snd (snd (the (ESPLoader_invoke recording ''hardReset'' [Str ''application''] fresh_loader (fresh_state [])))))
     = [(''perform'', 2, [])]
   \<and> ESPLoader_invoke recording ''hardReset'' [Str ''bootloader''] fresh_loader (fresh_state [])
     = ESPLoader_invoke recording ''hardReset'' [Str ''application''] fresh_loader (fresh_state [])
   \<and> ESPLoader_invoke recording ''load_stub'' [] fresh_loader (fresh_state []) = None
   \<and> ESPLoader_invoke recording ''close'' [] fresh_loader (fresh_state []) = None"
  by (simp add: ESPLoader_invoke_def eraseFlash_def hardReset_def fresh_loader fresh_state new_def run_defs)

text \<open>
  C1, amended: the class defines exactly the methods \<open>initialize\<close>, \<open>eraseFlash\<close>,
  \<open>flashData\<close> and \<open>hardReset\<close>. The first, second and fourth take no parameter
  (whatever arguments the caller passes, the call is the parameterless one);
  \<open>flashData\<close> takes \<open>data\<close>, \<open>offset\<close> and \<open>compress\<close> and drops any
  further argument.
\<close>

theorem surface:
  "(ESPLoader_invoke C name args l s = None
      \<longleftrightarrow> name \<notin> {''initialize'', ''eraseFlash'', ''flashData'', ''hardReset''})
   \<and> ESPLoader_invoke C ''initialize'' args l s = Some (initialize C l s)
   \<and> ESPLoader_invoke C ''eraseFlash'' args l s = Some (eraseFlash C l s)
   \<and> ESPLoader_invoke C ''hardReset'' args l s = Some (hardReset C l s)
   \<and> ESPLoader_invoke C ''flashData'' (d # off # c # extra) l s = Some (flashData C d off c l s)"
proof -
  have "ESPLoader_invoke C ''initialize'' args l s = Some (initialize C l s)"
    and "ESPLoader_invoke C ''eraseFlash'' args l s = Some (eraseFlash C l s)"
    and "ESPLoader_invoke C ''hardReset'' args l s = Some (hardReset C l s)"
    and "ESPLoader_invoke C ''flashData'' (d # off # c # extra) l s = Some (flashData C d off c l s)"
    by (simp_all add: ESPLoader_invoke_def arg_def)
  moreover have "ESPLoader_invoke C name args l s = None
      \<longleftrightarrow> name \<notin> {''initialize'', ''eraseFlash'', ''flashData'', ''hardReset''}"
    by (simp only: invoke_None insert_iff empty_iff simp_thms)
  ultimately show ?thesis by (simp only: simp_thms)
qed

theorem surface_witness:
  "ESPLoader_invoke recording ''reset'' [Str ''bootloader''] fresh_loader (fresh_state []) = None
   \<and> ESPLoader_invoke recording ''eraseFlash'' [Str ''bootloader''] fresh_loader (fresh_state [])
       = Some (eraseFlash recording fresh_loader (fresh_state []))"
  using surface [of recording "''reset''" "[Str ''bootloader'']" fresh_loader "fresh_state []" Undefined Undefined Undefined "[]"]
  by simp

subsection \<open>The calls issued to the chip\<close>

text \<open>
  C2, as the specification states it: every erase or write issues \<open>flash_begin\<close> with
  four arguments derived from the request (offset, total size, block count, block size).
  For the loader built by the constructor, \<open>eraseFlash\<close> calls the chip's
  \<open>flash_begin\<close> once, with an empty argument list: no call with four arguments is
  made.
\<close>

theorem flash_begin_args_counterexample:
  "world (snd (snd (eraseFlash recording fresh_loader (fresh_state [])))) = [(''flash_begin'', 1, [])]
   \<and> \<not> (\<exists>offset total_size block_count block_size.
          (''flash_begin'', chip fresh_loader, [offset, total_size, block_count, block_size])
            \<in> set (world (snd (snd (eraseFlash recording fresh_loader (fresh_state []))))))"
  by (simp add: eraseFlash_def fresh_loader fresh_state run_defs)

text \<open>
  C2, amended: \<open>eraseFlash\<close> acts on the world exactly as one call of the chip's
  \<open>flash_begin\<close> with no argument does, and \<open>flashData\<close>, when its data is
  neither \<open>undefined\<close> nor \<open>null\<close> and its offset is not \<open>null\<close>, exactly as
  one call of the chip's
  \<open>flash_data(data, offset, compress)\<close> with the defaults filled in. The loader
  computes no total size, block count or block size.
\<close>

theorem flash_calls:
  "world (snd (snd (eraseFlash C l s))) = snd (flash_begin C (chip l) [] (world s))
   \<and> (d \<noteq> Undefined \<and> d \<noteq> Null \<and> off \<noteq> Null \<longrightarrow>
        world (snd (snd (flashData C d off c l s)))
          = snd (flash_data C (chip l)
                  [d, default_param off (Num 0x10000), default_param c (Bool True)] (world s)))"
proof -
  have "world (snd (snd (eraseFlash C l s))) = snd (flash_begin C (chip l) [] (world s))"
    by (simp add: eraseFlash_def await_call_def console_log_def split: prod.split sum.split)
  moreover have "world (snd (snd (flashData C d off c l s)))
          = snd (flash_data C (chip l)
                  [d, default_param off (Num 0x10000), default_param c (Bool True)] (world s))"
    if "d \<noteq> Undefined" "d \<noteq> Null" "off \<noteq> Null"
    using that
    by (cases d; cases off)
       (simp_all add: flashData_def default_param_def await_call_def console_log_def
          split: prod.split sum.split)
  ultimately show ?thesis by blast
qed

theorem flash_calls_witness:
  "world (snd (snd (eraseFlash recording fresh_loader (fresh_state [])))) = [(''flash_begin'', 1, [])]
   \<and> world (snd (snd (flashData recording (Bytes [1, 2, 3]) (Num 0x1000) (Bool False) fresh_loader (fresh_state []))))
       = [(''flash_data'', 1, [Bytes [1, 2, 3], Num 0x1000, Bool False])]"
  using flash_calls [of recording fresh_loader "fresh_state []" "Bytes [1, 2, 3]" "Num 0x1000" "Bool False"]
  by (simp add: fresh_loader fresh_state recording_def default_param_def)

subsection \<open>Outcomes\<close>

text \<open>
  C4: every public operation reports its outcome. The promise of each method is rejected
  with the collaborator's error exactly when the collaborator's call was rejected (and,
  for \<open>flashData\<close>, with a \<open>TypeError\<close> when the log line cannot be built), and
  is fulfilled otherwise: with the chip for \<open>initialize\<close>, with \<open>undefined\<close> for
  the others. No failure is swallowed.
\<close>

theorem outcome_reported:
  "fst (initialize C l s)
     = (case fst (sync C (chip l) [] (world s)) of
          Inl e \<Rightarrow> Inl (Thrown e) | Inr v \<Rightarrow> Inr (RetObj (chip l)))
   \<and> fst (eraseFlash C l s)
     = (case fst (flash_begin C (chip l) [] (world s)) of
          Inl e \<Rightarrow> Inl (Thrown e) | Inr v \<Rightarrow> Inr RetUndefined)
   \<and> fst (flashData C d off c l s)
     = (case get_length d of
          Inl e \<Rightarrow> Inl e
        | Inr n \<Rightarrow>
           (case toString16 (default_param off (Num 0x10000)) of
              Inl e \<Rightarrow> Inl e
            | Inr h \<Rightarrow>
               (case fst (flash_data C (chip l)
                           [d, default_param off (Num 0x10000), default_param c (Bool True)] (world s)) of
                  Inl e \<Rightarrow> Inl (Thrown e) | Inr v \<Rightarrow> Inr RetUndefined)))
   \<and> fst (hardReset C l s)
     = (case fst (perform C (length (objects s)) [] (world s)) of
          Inl e \<Rightarrow> Inl (Thrown e) | Inr v \<Rightarrow> Inr RetUndefined)"
proof -
  have "fst (initialize C l s)
     = (case fst (sync C (chip l) [] (world s)) of
          Inl e \<Rightarrow> Inl (Thrown e) | Inr v \<Rightarrow> Inr (RetObj (chip l)))"
    by (simp add: initialize_def await_call_def console_log_def split: prod.split sum.split)
  moreover have "fst (eraseFlash C l s)
     = (case fst (flash_begin C (chip l) [] (world s)) of
          Inl e \<Rightarrow> Inl (Thrown e) | Inr v \<Rightarrow> Inr RetUndefined)"
    by (simp add: eraseFlash_def await_call_def console_log_def split: prod.split sum.split)
  moreover have "fst (flashData C d off c l s)
     = (case get_length d of
          Inl e \<Rightarrow> Inl e
        | Inr n \<Rightarrow>
           (case toString16 (default_param off (Num 0x10000)) of
              Inl e \<Rightarrow> Inl e
            | Inr h \<Rightarrow>
               (case fst (flash_data C (chip l)
                           [d, default_param off (Num 0x10000), default_param c (Bool True)] (world s)) of
                  Inl e \<Rightarrow> Inl (Thrown e) | Inr v \<Rightarrow> Inr RetUndefined)))"
    by (simp add: flashData_def await_call_def console_log_def Let_def split: prod.split sum.split)
  moreover have "fst (hardReset C l s)
     = (case fst (perform C (length (objects s)) [] (world s)) of
          Inl e \<Rightarrow> Inl (Thrown e) | Inr v \<Rightarrow> Inr RetUndefined)"
    by (simp add: hardReset_def new_def await_call_def console_log_def split: prod.split sum.split)
  ultimately show ?thesis by blast
qed

theorem outcome_reported_witness:
  "fst (initialize (recording\<lparr>sync := (\<lambda>this args w. (Inl (), w))\<rparr>) fresh_loader (fresh_state []))
     = Inl (Thrown ())
   \<and> fst (initialize recording fresh_loader (fresh_state [])) = Inr (RetObj 1)
   \<and> fst (eraseFlash (recording\<lparr>flash_begin := (\<lambda>this args w. (Inl (), w))\<rparr>) fresh_loader (fresh_state []))
     = Inl (Thrown ())
   \<and> fst (flashData (recording\<lparr>flash_data := (\<lambda>this args w. (Inl (), w))\<rparr>) (Bytes [1]) Undefined Undefined
            fresh_loader (fresh_state []))
     = Inl (Thrown ())
   \<and> fst (flashData recording Undefined Undefined Undefined fresh_loader (fresh_state [])) = Inl TypeError
   \<and> fst (hardReset (recording\<lparr>perform := (\<lambda>this args w. (Inl (), w))\<rparr>) fresh_loader (fresh_state []))
     = Inl (Thrown ())"
proof -
  let ?rej = "\<lambda>this args w. (Inl (), w) :: (unit + jsval) \<times> call_log"
  have "fst (initialize (recording\<lparr>sync := ?rej\<rparr>) fresh_loader (fresh_state [])) = Inl (Thrown ())"
    using outcome_reported [of "recording\<lparr>sync := ?rej\<rparr>" fresh_loader "fresh_state []" Undefined Undefined Undefined]
    by simp
  moreover have "fst (eraseFlash (recording\<lparr>flash_begin := ?rej\<rparr>) fresh_loader (fresh_state [])) = Inl (Thrown ())"
    by (simp add: eraseFlash_def await_call_def console_log_def)
  moreover have "fst (flashData (recording\<lparr>flash_data := ?rej\<rparr>) (Bytes [1]) Undefined Undefined
            fresh_loader (fresh_state [])) = Inl (Thrown ())"
    by (simp add: flashData_def default_param_def await_call_def console_log_def)
  moreover have "fst (hardReset (recording\<lparr>perform := ?rej\<rparr>) fresh_loader (fresh_state [])) = Inl (Thrown ())"
    by (simp add: hardReset_def new_def await_call_def console_log_def)
  moreover have "fst (initialize recording fresh_loader (fresh_state [])) = Inr (RetObj 1)"
    by (simp add: initialize_def fresh_loader run_defs)
  moreover have "fst (flashData recording Undefined Undefined Undefined fresh_loader (fresh_state [])) = Inl TypeError"
    by (simp add: flashData_def)
  ultimately show ?thesis by simp
qed

subsection \<open>Default parameters of \<open>flashData\<close>\<close>

text \<open>
  C5: \<open>flashData\<close> compresses by default. A call that leaves \<open>compress\<close> out
  (or passes \<open>undefined\<close>) is the call with \<open>compress = true\<close>: whenever it
  reaches the chip (the data is neither \<open>undefined\<close> nor \<open>null\<close>, the offset not
  \<open>null\<close>), the chip's \<open>flash_data\<close> is called once with the data, the offset
  and \<open>true\<close>, and the outcome is that call's; otherwise the call fails with a
  \<open>TypeError\<close> and nothing is sent.
\<close>

theorem flashData_compress_default:
  "flashData C d off Undefined l s = flashData C d off (Bool True) l s
   \<and> ESPLoader_invoke C ''flashData'' [d, off] l s = ESPLoader_invoke C ''flashData'' [d, off, Bool True] l s
   \<and> ESPLoader_invoke C ''flashData'' [d] l s = ESPLoader_invoke C ''flashData'' [d, Undefined, Bool True] l s
   \<and> (d \<noteq> Undefined \<and> d \<noteq> Null \<and> off \<noteq> Null \<longrightarrow>
        world (snd (snd (flashData C d off Undefined l s)))
          = snd (flash_data C (chip l) [d, default_param off (Num 0x10000), Bool True] (world s))
        \<and> fst (flashData C d off Undefined l s)
          = (case fst (flash_data C (chip l) [d, default_param off (Num 0x10000), Bool True] (world s)) of
               Inl e \<Rightarrow> Inl (Thrown e) | Inr v \<Rightarrow> Inr RetUndefined))
   \<and> (d = Undefined \<or> d = Null \<or> off = Null \<longrightarrow>
        flashData C d off Undefined l s = (Inl TypeError, l, s))"
proof -
  have eqs: "flashData C d off Undefined l s = flashData C d off (Bool True) l s"
    "ESPLoader_invoke C ''flashData'' [d, off] l s = ESPLoader_invoke C ''flashData'' [d, off, Bool True] l s"
    "ESPLoader_invoke C ''flashData'' [d] l s = ESPLoader_invoke C ''flashData'' [d, Undefined, Bool True] l s"
    by (simp_all add: flashData_def default_param_def ESPLoader_invoke_def arg_def)
  have dflt: "default_param Undefined (Bool True) = Bool True"
    by (simp add: default_param_def)
  have sent: "world (snd (snd (flashData C d off Undefined l s)))
          = snd (flash_data C (chip l) [d, default_param off (Num 0x10000), Bool True] (world s))
        \<and> fst (flashData C d off Undefined l s)
          = (case fst (flash_data C (chip l) [d, default_param off (Num 0x10000), Bool True] (world s)) of
               Inl e \<Rightarrow> Inl (Thrown e) | Inr v \<Rightarrow> Inr RetUndefined)"
    if "d \<noteq> Undefined \<and> d \<noteq> Null \<and> off \<noteq> Null"
    using that flashData_reaches_chip [of d off C Undefined l s] by (simp only: dflt simp_thms)
  from eqs sent flashData_TypeError [of d off C Undefined l s] show ?thesis by blast
qed

theorem flashData_compress_default_witness:
  "ESPLoader_invoke recording ''flashData'' [Bytes [1, 2, 3], Num 0x1000] fresh_loader (fresh_state [])
     = Some (Inr RetUndefined, fresh_loader,
         \<lparr>objects = [Transport 0, ESP32S3ROM 0],
          console = [''[loader] Flashing 3 bytes at offset 0x1000''],
          world = [(''flash_data'', 1, [Bytes [1, 2, 3], Num 0x1000, Bool True])]\<rparr>)"
  using flashData_compress_default [of recording "Bytes [1, 2, 3]" "Num 0x1000" fresh_loader "fresh_state []"]
  by (simp add: ESPLoader_invoke_def arg_def flashData_def default_param_def fresh_loader fresh_state
      run_defs hex_1000 dec_3)



subsection \<open>The loader's fields\<close>

text \<open>
  C9: the constructor stores the port, a \<open>Transport\<close> made from that port and an
  \<open>ESP32S3ROM\<close> made from that transport. No method changes the three fields.
  \<open>initialize\<close>, when it succeeds, returns the chip held in the loader, and
  \<open>eraseFlash\<close> and \<open>flashData\<close> call that same object.
\<close>

theorem loader_fields:
  assumes "ESPLoader_new p s0 = (l, s)"
  shows "port l = p
    \<and> transport l < length (objects s) \<and> objects s ! transport l = Transport p
    \<and> chip l < length (objects s) \<and> objects s ! chip l = ESP32S3ROM (transport l)
    \<and> fst (snd (initialize C l s')) = l
    \<and> fst (snd (eraseFlash C l s')) = l
    \<and> fst (snd (flashData C d off c l s')) = l
    \<and> fst (snd (hardReset C l s')) = l
    \<and> (\<forall>r. fst (initialize C l s') = Inr r \<longrightarrow> r = RetObj (chip l))
    \<and> world (snd (snd (eraseFlash C l s'))) = snd (flash_begin C (chip l) [] (world s'))
    \<and> (fst (flashData C d off c l s') \<noteq> Inl TypeError \<longrightarrow>
         world (snd (snd (flashData C d off c l s')))
           = snd (flash_data C (chip l)
                   [d, default_param off (Num 0x10000), default_param c (Bool True)] (world s')))"
proof -
  from assms have l: "l = \<lparr>port = p, transport = length (objects s0), chip = Suc (length (objects s0))\<rparr>"
    and s: "objects s = objects s0 @ [Transport p, ESP32S3ROM (length (objects s0))]"
    by (auto simp add: ESPLoader_new_def new_def)
  have "port l = p
    \<and> transport l < length (objects s) \<and> objects s ! transport l = Transport p
    \<and> chip l < length (objects s) \<and> objects s ! chip l = ESP32S3ROM (transport l)"
    by (simp add: l s nth_append)
  then show ?thesis
    using initialize_frame [of C l s'] eraseFlash_frame [of C l s'] flashData_frame [of C d off c l s']
      hardReset_frame [of C l s'] initialize_result [of C l s'] eraseFlash_world [of C l s']
      flashData_world [of C d off c l s']
    by blast
qed

theorem loader_fields_witness:
  "port fresh_loader = 0
   \<and> objects (fresh_state ([]::call_log)) ! transport fresh_loader = Transport 0
   \<and> objects (fresh_state ([]::call_log)) ! chip fresh_loader = ESP32S3ROM (transport fresh_loader)
   \<and> initialize recording fresh_loader (fresh_state [])
       = (Inr (RetObj (chip fresh_loader)), fresh_loader,
          \<lparr>objects = [Transport 0, ESP32S3ROM 0],
           console = [''[loader] Initializing ESP32-S3...''],
           world = [(''sync'', chip fresh_loader, [])]\<rparr>)
   \<and> world (snd (snd (eraseFlash recording fresh_loader
               (snd (snd (initialize recording fresh_loader (fresh_state [])))))))
       = [(''sync'', chip fresh_loader, []), (''flash_begin'', chip fresh_loader, [])]"
proof -
  have new: "ESPLoader_new (0::nat) (empty_state []) = (fresh_loader, fresh_state ([]::call_log))"
    by (simp add: fresh_defs)
  have init: "initialize recording fresh_loader (fresh_state [])
       = (Inr (RetObj (chip fresh_loader)), fresh_loader,
          \<lparr>objects = [Transport 0, ESP32S3ROM 0],
           console = [''[loader] Initializing ESP32-S3...''],
           world = [(''sync'', chip fresh_loader, [])]\<rparr>)"
    by (simp add: initialize_def fresh_loader fresh_state run_defs)
  have erase: "world (snd (snd (eraseFlash recording fresh_loader
               (snd (snd (initialize recording fresh_loader (fresh_state [])))))))
       = [(''sync'', chip fresh_loader, []), (''flash_begin'', chip fresh_loader, [])]"
    unfolding init by (simp add: eraseFlash_def run_defs)
  from loader_fields [OF new, of recording "fresh_state []" Undefined Undefined Undefined]
  have "port fresh_loader = 0"
    and "objects (fresh_state ([]::call_log)) ! transport fresh_loader = Transport 0"
    and "objects (fresh_state ([]::call_log)) ! chip fresh_loader = ESP32S3ROM (transport fresh_loader)"
    by blast+
  with init erase show ?thesis by blast
qed

text \<open>
  C10: every call of \<open>hardReset\<close> creates a new \<open>HardReset\<close> object from the
  loader's transport (at an address the object table did not hold before), calls
  \<open>perform\<close> on it, and leaves the loader's port, transport and chip as they were.
\<close>

theorem hardReset_effect:
  assumes "hardReset C l s = (r, l', s')"
  shows "l' = l
    \<and> objects s' = objects s @ [HardReset (transport l)]
    \<and> console s' = console s @ [''[loader] Hard reset...'']
    \<and> world s' = snd (perform C (length (objects s)) [] (world s))
    \<and> r = (case fst (perform C (length (objects s)) [] (world s)) of
              Inl e \<Rightarrow> Inl (Thrown e) | Inr v \<Rightarrow> Inr RetUndefined)"
  using assms
  by (auto simp add: hardReset_def new_def await_call_def console_log_def split: prod.splits sum.splits)

theorem hardReset_effect_witness:
  "hardReset recording fresh_loader (fresh_state [])
     = (Inr RetUndefined, fresh_loader,
        \<lparr>objects = [Transport 0, ESP32S3ROM 0, HardReset 0],
         console = [''[loader] Hard reset...''],
         world = [(''perform'', 2, [])]\<rparr>)"
proof -
  obtain r l' s' where run: "hardReset recording fresh_loader (fresh_state []) = (r, l', (s' :: (nat, call_log) state))"
    by (cases "hardReset recording fresh_loader (fresh_state ([]::call_log))") auto
  from hardReset_effect [OF run] have "l' = fresh_loader" "r = Inr RetUndefined"
    "objects s' = [Transport 0, ESP32S3ROM 0, HardReset 0]"
    "console s' = [''[loader] Hard reset...'']" "world s' = [(''perform'', 2, [])]"
    by (simp_all add: fresh_loader fresh_state recording_def)
  then have "s' = \<lparr>objects = [Transport 0, ESP32S3ROM 0, HardReset 0],
         console = [''[loader] Hard reset...''],
         world = [(''perform'', 2, [])]\<rparr>"
    by (cases s') simp
  with run \<open>l' = fresh_loader\<close> \<open>r = Inr RetUndefined\<close> show ?thesis by simp
qed

section \<open>Properties of the framing layer\<close>

lemma decode_body_plain:
  "b \<noteq> delimiter F \<Longrightarrow> b \<noteq> escape F \<Longrightarrow> rest \<noteq> [] \<Longrightarrow>
   decode_body F (b # rest) = push_byte b (decode_body F rest)"
  by (cases rest) simp_all

lemma escape_byte_delimiter: "escape_byte F (delimiter F) = [escape F, esc_delimiter F]"
  by (simp add: escape_byte_def)

lemma escape_byte_escape:
  "delimiter F \<noteq> escape F \<Longrightarrow> escape_byte F (escape F) = [escape F, esc_escape F]"
  by (simp add: escape_byte_def)

lemma escape_byte_plain:
  "b \<noteq> delimiter F \<Longrightarrow> b \<noteq> escape F \<Longrightarrow> escape_byte F b = [b]"
  by (simp add: escape_byte_def)

lemma decode_body_escaped:
  assumes "delimiter F \<noteq> escape F" and "esc_delimiter F \<noteq> esc_escape F"
  shows "decode_body F (concat (map (escape_byte F) payload) @ [delimiter F]) = Payload payload"
proof (induction payload)
  case Nil
  show ?case by simp
next
  case (Cons b bs)
  let ?rest = "concat (map (escape_byte F) bs) @ [delimiter F]"
  have rest: "?rest \<noteq> []" by simp
  show ?case
  proof (cases "b = delimiter F")
    case True
    with assms Cons show ?thesis by (simp add: escape_byte_delimiter)
  next
    case False
    note not_delim = this
    show ?thesis
    proof (cases "b = escape F")
      case True
      with assms Cons show ?thesis by (simp add: escape_byte_escape)
    next
      case False
      with not_delim have "decode_body F (b # ?rest) = push_byte b (decode_body F ?rest)"
        using rest by (rule decode_body_plain)
      with False not_delim Cons show ?thesis by (simp add: escape_byte_plain)
    qed
  qed
qed

text \<open>
  C7: framing round trip. For every byte sequence \<open>b\<close>, decoding the encoding of
  \<open>b\<close> gives back \<open>b\<close>, for every choice of the four framing bytes in which the
  delimiter differs from the escape byte and the two escape codes differ from each other.
\<close>

theorem framing_roundtrip:
  assumes "delimiter F \<noteq> escape F" and "esc_delimiter F \<noteq> esc_escape F"
  shows "decode F (encode F b) = Payload b"
  using decode_body_escaped [OF assms, of b] by (simp add: encode_def)

theorem framing_roundtrip_witness:
  "encode slip [0x01, 0xC0, 0xDB, 0x02] = [0xC0, 0x01, 0xDB, 0xDC, 0xDB, 0xDD, 0x02, 0xC0]
   \<and> decode slip [0xC0, 0x01, 0xDB, 0xDC, 0xDB, 0xDD, 0x02, 0xC0] = Payload [0x01, 0xC0, 0xDB, 0x02]"
proof -
  have enc: "encode slip [0x01, 0xC0, 0xDB, 0x02] = [0xC0, 0x01, 0xDB, 0xDC, 0xDB, 0xDD, 0x02, 0xC0]"
    by (simp add: encode_def escape_byte_def slip_def)
  have "delimiter slip \<noteq> escape slip" and "esc_delimiter slip \<noteq> esc_escape slip"
    by (simp_all add: slip_def)
  from framing_roundtrip [OF this, of "[0x01, 0xC0, 0xDB, 0x02]"] show ?thesis
    by (simp add: enc)
qed

section \<open>The loader and the session\<close>




section \<open>The loader and block accounting\<close>







end
